theory Spec2Isabelle
  imports Complex_Main
begin

section \<open>Conventions of the embedding\<close>

text \<open>
  The page processor is Python on top of numpy and OpenCV. The embedding follows the
  Python functions statement by statement. Python floats are modelled as \<open>real\<close>,
  Python integers as \<open>int\<close> (or \<open>nat\<close> for sizes), numpy's 32-bit integers as
  \<open>int\<close> with the wrap-around written out, an exception as the left injection of a
  sum type, a float that is not a number as \<open>None\<close>. A grayscale raster is the
  list of its rows, each a list of
  8-bit values; a colour raster carries a triple per pixel.

  The OpenCV and numpy primitives that are not part of the repository (edge detection,
  binarisation, contour extraction, line detection, polynomial fit, blur, resize) are
  taken as parameters: the record \<open>cv2\<close> holds one function per primitive, and every
  modelled function of the repository receives it as its first argument.
\<close>

datatype py_error = ZeroDivisionError | ValueError | IndexError | CvError

type_synonym gray_image = "nat list list"

datatype image = Gray gray_image | BGR "(nat \<times> nat \<times> nat) list list"

type_synonym contour = "(int \<times> int) list"

type_synonym segment = "int \<times> int \<times> int \<times> int"

record cv2 =
  cvtColor_BGR2GRAY :: "(nat \<times> nat \<times> nat) list list \<Rightarrow> gray_image"
  resize_INTER_AREA :: "gray_image \<Rightarrow> nat \<Rightarrow> nat \<Rightarrow> gray_image"
  threshold_BINARY_INV_OTSU :: "gray_image \<Rightarrow> gray_image"
  dilate_RECT :: "gray_image \<Rightarrow> nat \<Rightarrow> nat \<Rightarrow> gray_image"
  morphologyEx_OPEN :: "gray_image \<Rightarrow> nat \<Rightarrow> nat \<Rightarrow> gray_image"
  findContours_EXTERNAL :: "gray_image \<Rightarrow> contour list"
  boundingRect :: "contour \<Rightarrow> int \<times> int \<times> int \<times> int"
  polyfit2 :: "real list \<Rightarrow> real list \<Rightarrow> real list option"
  Canny :: "gray_image \<Rightarrow> gray_image"
  HoughLinesP :: "gray_image \<Rightarrow> nat \<Rightarrow> nat \<Rightarrow> segment list option"
  GaussianBlur_row :: "real list \<Rightarrow> nat \<Rightarrow> real list"
  percentile90_cols :: "real list list \<Rightarrow> real list"
  warpAffine_rotate :: "gray_image \<Rightarrow> real \<Rightarrow> gray_image"

text \<open>\<open>image.shape[:2]\<close>: number of rows, and length of a row.\<close>

definition shape_h :: "'a list list \<Rightarrow> nat" where
  "shape_h img = length img"

definition shape_w :: "'a list list \<Rightarrow> nat" where
  "shape_w img = (case img of [] \<Rightarrow> 0 | r # _ \<Rightarrow> length r)"

fun image_h :: "image \<Rightarrow> nat" where
  "image_h (Gray g) = shape_h g"
| "image_h (BGR c) = shape_h c"

fun image_w :: "image \<Rightarrow> nat" where
  "image_w (Gray g) = shape_w g"
| "image_w (BGR c) = shape_w c"

text \<open>Python's \<open>round\<close> (ties to even) and \<open>int\<close> (truncation) on a float.\<close>

definition py_round :: "real \<Rightarrow> int" where
  "py_round x =
     (let f = \<lfloor>x\<rfloor>; d = x - of_int f
      in if d < 1 / 2 then f
         else if 1 / 2 < d then f + 1
         else if even f then f else f + 1)"

definition py_int :: "real \<Rightarrow> int" where
  "py_int x = (if 0 \<le> x then \<lfloor>x\<rfloor> else \<lceil>x\<rceil>)"

definition np_mean :: "real list \<Rightarrow> real" where
  "np_mean xs = sum_list xs / real (length xs)"

definition np_var :: "real list \<Rightarrow> real" where
  "np_var xs = np_mean (map (\<lambda>x. (x - np_mean xs)\<^sup>2) xs)"

definition np_std :: "real list \<Rightarrow> real" where
  "np_std xs = sqrt (np_var xs)"

definition np_median :: "real list \<Rightarrow> real" where
  "np_median xs =
     (let ys = sort xs; n = length ys
      in if odd n then ys ! (n div 2)
         else (ys ! (n div 2 - 1) + ys ! (n div 2)) / 2)"

text \<open>\<open>np.arctan2(y, x)\<close>, and the angle of a segment in degrees.\<close>

definition arctan2 :: "real \<Rightarrow> real \<Rightarrow> real" where
  "arctan2 y x =
     (if 0 < x then arctan (y / x)
      else if x < 0 then (if 0 \<le> y then arctan (y / x) + pi else arctan (y / x) - pi)
      else if 0 < y then pi / 2
      else if y < 0 then - pi / 2
      else 0)"

definition segment_angle :: "real \<Rightarrow> real \<Rightarrow> real" where
  "segment_angle dx dy = arctan2 dy dx * 180 / pi"


subsection \<open>Shared preprocessing (detection.py, split.py, stages/image\_utils.py)\<close>

fun to_gray :: "cv2 \<Rightarrow> image \<Rightarrow> gray_image" where
  "to_gray cv (Gray g) = g"
| "to_gray cv (BGR c) = cvtColor_BGR2GRAY cv c"

definition resize_for_analysis :: "cv2 \<Rightarrow> gray_image \<Rightarrow> nat \<Rightarrow> gray_image \<times> real" where
  "resize_for_analysis cv gray max_dim =
     (let h = shape_h gray; w = shape_w gray
      in if max h w \<le> max_dim then (gray, 1)
         else
           (let scale = real max_dim / real (max h w);
                new_w = nat (max 1 (py_round (real w * scale)));
                new_h = nat (max 1 (py_round (real h * scale)))
            in (resize_INTER_AREA cv gray new_w new_h, scale)))"

text \<open>
  \<open>cv2.getStructuringElement\<close> raises \<open>cv2.error\<close> on a kernel size with a side of
  0; the callers that pass \<open>w // 20\<close> or \<open>w // 30\<close> unguarded do not catch it.
\<close>

definition getStructuringElement :: "nat \<Rightarrow> nat \<Rightarrow> py_error + nat \<times> nat" where
  "getStructuringElement kw kh = (if kw = 0 \<or> kh = 0 then Inl CvError else Inr (kw, kh))"

section \<open>Curvature scorer\<close>





record curvature_result =
  score :: real
  confidence :: real
  num_lines :: nat
  avg_curvature :: real
  max_curvature :: real




section \<open>Skew estimator\<close>

text \<open>
  \<open>_detect_skew_hough\<close> of detection.py is named \<open>page_detect_skew_hough\<close> here, to
  keep it apart from \<open>detect_skew_hough\<close> of stages/deskew.py. A leading underscore of
  a Python name is dropped throughout. The coordinates of a segment are numpy 32-bit
  integers: the whole-page variant converts their differences to floats before it
  squares them, the stage variant squares them as they are.
\<close>

fun page_accepted :: "real \<Rightarrow> segment list \<Rightarrow> (real \<times> real) list" where
  "page_accepted max_angle [] = []"
| "page_accepted max_angle ((x1, y1, x2, y2) # ls) =
     (let dx = real_of_int (x2 - x1); dy = real_of_int (y2 - y1)
      in if \<bar>dx\<bar> < 1 then page_accepted max_angle ls
         else
           (let angle = segment_angle dx dy
            in if max_angle < \<bar>angle\<bar> then page_accepted max_angle ls
               else (angle, sqrt (dx\<^sup>2 + dy\<^sup>2)) # page_accepted max_angle ls))"

definition weighted_mean_angle :: "real list \<Rightarrow> real list \<Rightarrow> real" where
  "weighted_mean_angle angles lengths =
     sum_list (map (\<lambda>(a, l). a * l) (zip angles lengths)) / sum_list lengths"

definition page_hough_lines :: "cv2 \<Rightarrow> gray_image \<Rightarrow> segment list option" where
  "page_hough_lines cv gray =
     (let w = shape_w gray;
          edges = Canny cv gray;
          kernel_w = max 10 (w div 30);
          dilated = dilate_RECT cv edges kernel_w 1
      in HoughLinesP cv dilated (max 30 (w div 8)) (max 10 (w div 20)))"

definition page_detect_skew_hough :: "cv2 \<Rightarrow> gray_image \<Rightarrow> real \<Rightarrow> real \<times> real" where
  "page_detect_skew_hough cv gray max_angle =
     (let h = shape_h gray; w = shape_w gray
      in if h < 10 \<or> w < 10 then (0, 0)
         else
           (case page_hough_lines cv gray of
              None \<Rightarrow> (0, 0)
            | Some lines \<Rightarrow>
                if lines = [] then (0, 0)
                else
                  (let acc = page_accepted max_angle lines;
                       angles = map fst acc;
                       lengths = map snd acc
                   in if angles = [] then (0, 0)
                      else
                        (let total_len = sum_list lengths;
                             line_angle =
                               (if total_len \<le> 0 then np_median angles
                                else weighted_mean_angle angles lengths);
                             angle_std = (if 1 < length angles then np_std angles else 0);
                             consistency = max 0 (1 - angle_std / 4);
                             count_score = min 1 (real (length angles) / 15);
                             confidence =
                               min 1 (max 0 (consistency * 0.7 + count_score * 0.3))
                         in (- line_angle, confidence)))))"

text \<open>
  \<open>detect_skew_angle\<close> (detection.py). On an empty array \<open>np.std\<close> is not a number
  and the comparison with 5 is false; the OpenCV primitives are taken to return.
\<close>

definition analysis_gray :: "cv2 \<Rightarrow> image \<Rightarrow> gray_image" where
  "analysis_gray cv img = fst (resize_for_analysis cv (to_gray cv img) 1500)"

definition pixels :: "gray_image \<Rightarrow> real list" where
  "pixels g = map real (concat g)"

definition detect_skew_angle :: "cv2 \<Rightarrow> image \<Rightarrow> real" where
  "detect_skew_angle cv img =
     (let gray_small = analysis_gray cv img
      in if pixels gray_small \<noteq> [] \<and> np_std (pixels gray_small) < 5 then 0
         else
           (case page_detect_skew_hough cv gray_small 15 of
              (angle, conf) \<Rightarrow>
                if conf < 0.40 then 0
                else if 5 < \<bar>angle\<bar> \<and> conf < 0.70 then 0
                else if 10 < \<bar>angle\<bar> then 0
                else angle))"

subsection \<open>Stage variant (stages/deskew.py)\<close>

text \<open>
  Arithmetic on numpy \<open>int32\<close> scalars wraps around. The square root of a negative
  sum of squares is not a number; one such length makes the total length, and with it
  the weighted angle, not a number.
\<close>

definition wrap32 :: "int \<Rightarrow> int" where
  "wrap32 z = (z + 2 ^ 31) mod 2 ^ 32 - 2 ^ 31"

record hough_result =
  hough_angle :: "real option"
  hough_confidence :: real
  lines_count :: nat

fun stage_accepted :: "real \<Rightarrow> segment list \<Rightarrow> (real \<times> real option) list" where
  "stage_accepted max_angle [] = []"
| "stage_accepted max_angle ((x1, y1, x2, y2) # ls) =
     (let dx = wrap32 (x2 - x1); dy = wrap32 (y2 - y1)
      in if wrap32 \<bar>dx\<bar> < 1 then stage_accepted max_angle ls
         else
           (let angle = segment_angle (real_of_int dx) (real_of_int dy);
                sq = wrap32 (wrap32 (dx * dx) + wrap32 (dy * dy));
                len = (if sq < 0 then None else Some (sqrt (real_of_int sq)))
            in if \<bar>angle\<bar> \<le> max_angle then (angle, len) # stage_accepted max_angle ls
               else stage_accepted max_angle ls))"

fun numbers :: "real option list \<Rightarrow> real list option" where
  "numbers [] = Some []"
| "numbers (None # xs) = None"
| "numbers (Some x # xs) = (case numbers xs of None \<Rightarrow> None | Some ys \<Rightarrow> Some (x # ys))"


definition stage_hough_lines :: "cv2 \<Rightarrow> gray_image \<Rightarrow> py_error + segment list option" where
  "stage_hough_lines cv gray =
     (let w = shape_w gray;
          edges = Canny cv gray
      in case getStructuringElement (w div 30) 1 of
           Inl e \<Rightarrow> Inl e
         | Inr (kw, kh) \<Rightarrow>
             (let dilated = dilate_RECT cv edges kw kh
              in Inr (HoughLinesP cv dilated (w div 8) (w div 20))))"

definition detect_skew_hough :: "cv2 \<Rightarrow> gray_image \<Rightarrow> real \<Rightarrow> py_error + hough_result" where
  "detect_skew_hough cv gray max_angle =
     (case stage_hough_lines cv gray of
        Inl e \<Rightarrow> Inl e
      | Inr None \<Rightarrow> Inr \<lparr>hough_angle = Some 0, hough_confidence = 0, lines_count = 0\<rparr>
      | Inr (Some lines) \<Rightarrow>
          if lines = []
          then Inr \<lparr>hough_angle = Some 0, hough_confidence = 0, lines_count = 0\<rparr>
          else
            (let acc = stage_accepted max_angle lines;
                 angles = map fst acc;
                 line_lengths = map snd acc
             in if angles = []
                then Inr \<lparr>hough_angle = Some 0, hough_confidence = 0,
                          lines_count = length lines\<rparr>
                else
                  (let weighted_angle =
                         (case numbers line_lengths of
                            None \<Rightarrow> None
                          | Some lengths \<Rightarrow>
                              if sum_list lengths = 0 then Some (np_median angles)
                              else Some (weighted_mean_angle angles lengths));
                       angle_std = (if 1 < length angles then np_std angles else 0);
                       consistency_score = max 0 (1 - angle_std / 5);
                       count_score = min 1 (real (length angles) / 20);
                       confidence = consistency_score * 0.7 + count_score * 0.3
                   in Inr \<lparr>hough_angle = weighted_angle, hough_confidence = confidence,
                           lines_count = length angles\<rparr>)))"







record deskew_result =
  angle :: "real option"
  deskew_confidence :: real
  method_used :: string
  needs_correction :: bool


section \<open>Gutter locator (split.py)\<close>

text \<open>
  Column slices \<open>img[:, a:b]\<close> and \<open>img[:, -k:]\<close>, the row stride \<open>img[::4]\<close>, and
  the columns of a raster. \<open>GaussianBlur_row\<close> returns a row as long as its input, so
  that the curves of one search window have one length.
\<close>

definition py_cols :: "nat \<Rightarrow> nat \<Rightarrow> 'a list list \<Rightarrow> 'a list list" where
  "py_cols a b img = map (\<lambda>r. take (b - a) (drop a r)) img"

definition last_cols :: "nat \<Rightarrow> 'a list list \<Rightarrow> 'a list list" where
  "last_cols k img = (if k = 0 then img else map (\<lambda>r. drop (length r - k) r) img)"

definition stride4 :: "'a list \<Rightarrow> 'a list" where
  "stride4 xs = map (\<lambda>i. xs ! (4 * i)) [0..<(length xs + 3) div 4]"

definition columns_of :: "'a list list \<Rightarrow> 'a list list" where
  "columns_of img = map (\<lambda>i. map (\<lambda>r. r ! i) img) [0..<shape_w img]"

definition smooth_1d :: "cv2 \<Rightarrow> real list \<Rightarrow> nat \<Rightarrow> real list" where
  "smooth_1d cv vals kernel_size =
     (if vals = [] then vals
      else
        (let k = max 3 kernel_size;
             k = (if even k then k + 1 else k)
         in GaussianBlur_row cv vals k))"

text \<open>Inverted-ink column sums, edge-pixel column counts, column means.\<close>

definition ink_projection :: "gray_image \<Rightarrow> real list" where
  "ink_projection region = map (\<lambda>c. sum_list (map (\<lambda>p. real (255 - p)) c)) (columns_of region)"

definition edge_projection :: "gray_image \<Rightarrow> real list" where
  "edge_projection edge_region =
     map (\<lambda>c. real (length (filter (\<lambda>p. 0 < p) c))) (columns_of edge_region)"

definition column_means :: "gray_image \<Rightarrow> real list" where
  "column_means sample = map (\<lambda>c. np_mean (map real c)) (columns_of sample)"

text \<open>The top and bottom margin bands, every fourth row of each.\<close>

definition margin_sample :: "gray_image \<Rightarrow> nat \<Rightarrow> gray_image" where
  "margin_sample region hs =
     (let band_h = nat (max 1 (py_round (real hs * 0.12)));
          top = stride4 (take band_h region);
          bot = stride4 (drop (hs - band_h) region);
          top_size = length (concat top);
          bot_size = length (concat bot)
      in if 0 < top_size \<and> 0 < bot_size then top @ bot
         else if 0 < top_size then top
         else if 0 < bot_size then bot
         else if 4 < hs then stride4 region else region)"

fun grow_left :: "bool list \<Rightarrow> nat \<Rightarrow> nat" where
  "grow_left msk 0 = 0"
| "grow_left msk (Suc l) = (if msk ! l then grow_left msk l else Suc l)"

function grow_right :: "bool list \<Rightarrow> nat \<Rightarrow> nat \<Rightarrow> nat" where
  "grow_right msk n r =
     (if r + 1 < n \<and> msk ! (r + 1) then grow_right msk n (r + 1) else r)"
  by pat_completeness auto
termination
  by (relation "measure (\<lambda>(msk, n, r). n - r)") auto

definition band_edges :: "real list \<Rightarrow> int \<Rightarrow> nat \<times> nat" where
  "band_edges curve idx0 =
     (if curve = [] then (0, 0)
      else
        (let n = length curve;
             idx = nat (max 0 (min (int n - 1) idx0));
             mean_v = np_mean curve;
             min_v = curve ! idx
         in if mean_v \<le> 0 \<or> mean_v \<le> min_v then (idx, idx)
            else
              (let thresh = min_v + (mean_v - min_v) * 0.35;
                   msk = map (\<lambda>v. v \<le> thresh) curve
               in if \<not> msk ! idx then (idx, idx)
                  else (grow_left msk idx, grow_right msk n idx))))"

text \<open>
  A score with entries set to \<open>-inf\<close> is a list of options, \<open>None\<close> standing for
  \<open>-inf\<close>; \<open>np.argmax\<close> returns the first index of the maximum.
\<close>

definition mask_ends :: "nat \<Rightarrow> real list \<Rightarrow> real option list" where
  "mask_ends pad xs =
     map (\<lambda>i. if i < pad \<or> length xs - pad \<le> i then None else Some (xs ! i)) [0..<length xs]"

fun opt_less :: "real option \<Rightarrow> real option \<Rightarrow> bool" where
  "opt_less None None = False"
| "opt_less None (Some y) = True"
| "opt_less (Some x) None = False"
| "opt_less (Some x) (Some y) = (x < y)"

fun argmax_from :: "real option list \<Rightarrow> nat \<Rightarrow> nat \<Rightarrow> nat \<Rightarrow> nat" where
  "argmax_from xs best i 0 = best"
| "argmax_from xs best i (Suc k) =
     (if opt_less (xs ! best) (xs ! i) then argmax_from xs i (i + 1) k
      else argmax_from xs best (i + 1) k)"

definition np_argmax :: "real option list \<Rightarrow> nat" where
  "np_argmax xs = argmax_from xs 0 1 (length xs - 1)"

definition norm_low :: "nat \<Rightarrow> real list \<Rightarrow> real list" where
  "norm_low region_w curve =
     (if curve = [] then replicate region_w 0
      else
        (let mn = Min (set curve); mx = Max (set curve)
         in if mx - mn < 1 / 10 ^ 9 then map (\<lambda>c. 0) curve
            else map (\<lambda>c. (mx - c) / (mx - mn)) curve))"

definition find_gutter_position :: "cv2 \<Rightarrow> image \<Rightarrow> int" where
  "find_gutter_position cv img =
     (let w = image_w img;
          gray = to_gray cv img;
          rs = resize_for_analysis cv gray 1500;
          gray_small = fst rs; scale = snd rs;
          hs = shape_h gray_small; ws = shape_w gray_small;
          start = nat (py_int (real ws * 0.10));
          stop = nat (py_int (real ws * 0.90))
      in if stop \<le> start + 10 then int (w div 2)
         else
           (let region = py_cols start stop gray_small;
                region_w = shape_w region;
                proj_s = smooth_1d cv (ink_projection region) (max 9 (region_w div 25));
                edges = Canny cv gray_small;
                edge_s = smooth_1d cv (edge_projection (py_cols start stop edges))
                           (max 9 (region_w div 25));
                shadow_s = smooth_1d cv (column_means (margin_sample region hs))
                             (max 11 (region_w div 20));
                ink_score = norm_low region_w proj_s;
                edge_score = norm_low region_w edge_s;
                shadow_score =
                  (if shadow_s \<noteq> [] then norm_low region_w shadow_s
                   else replicate region_w 0);
                left_ink = (if proj_s \<noteq> [] then sum_list (take (region_w div 2) proj_s) else 0);
                right_ink = (if proj_s \<noteq> [] then sum_list (drop (region_w div 2) proj_s) else 0);
                denom = max 1 (min left_ink right_ink);
                asym_ratio = max left_ink right_ink / denom;
                w_ink = (if 2.5 \<le> asym_ratio then 0.20 else 0.45);
                w_edge = 0.20;
                w_shadow = (if 2.5 \<le> asym_ratio then 0.60 else 0.35);
                score0 = map (\<lambda>i. ink_score ! i * w_ink + edge_score ! i * w_edge
                                     + shadow_score ! i * w_shadow) [0..<region_w];
                center = (real region_w - 1) / 2;
                score1 =
                  (if 1 < center
                   then map (\<lambda>i. score0 ! i - (\<bar>real i - center\<bar> / center)\<^sup>2 * 0.22)
                          [0..<region_w]
                   else score0);
                edge_pad = max 3 (region_w div 50);
                score = mask_ends edge_pad score1;
                idx0 = np_argmax score;
                idx = (if score ! idx0 = None then region_w div 2 else idx0);
                comp_ink = ink_score ! idx * w_ink;
                comp_edge = edge_score ! idx * w_edge;
                comp_shadow = (if shadow_score \<noteq> [] then shadow_score ! idx * w_shadow else 0);
                band_curve =
                  (if shadow_s \<noteq> [] \<and> max comp_ink comp_edge + 0.05 \<le> comp_shadow then shadow_s
                   else if comp_edge \<le> comp_ink \<and> proj_s \<noteq> [] then proj_s
                   else if edge_s \<noteq> [] then edge_s
                   else proj_s);
                be = band_edges band_curve (int idx);
                band_center_idx = (int (fst be) + int (snd be)) div 2;
                split_small = min (int stop - 1) (max (int start + 1) (int start + band_center_idx));
                inv = 1 / scale;
                gutter_x = py_round (real_of_int split_small * inv);
                min_x = py_int (real w * 0.03);
                max_x = py_int (real w * 0.97)
            in max min_x (min max_x gutter_x)))"

text \<open>
  \<open>split_facing_pages\<close>: Python slices \<open>row[:k]\<close> and \<open>row[k:]\<close> for an integer
  \<open>k\<close> of either sign.
\<close>

definition slice_to :: "int \<Rightarrow> 'a list \<Rightarrow> 'a list" where
  "slice_to k xs = (if 0 \<le> k then take (nat k) xs else take (length xs - nat (- k)) xs)"

definition slice_from :: "int \<Rightarrow> 'a list \<Rightarrow> 'a list" where
  "slice_from k xs = (if 0 \<le> k then drop (nat k) xs else drop (length xs - nat (- k)) xs)"

fun map_rows :: "(nat list \<Rightarrow> nat list) \<Rightarrow> ((nat \<times> nat \<times> nat) list \<Rightarrow> (nat \<times> nat \<times> nat) list)
    \<Rightarrow> image \<Rightarrow> image" where
  "map_rows f g (Gray rows) = Gray (map f rows)"
| "map_rows f g (BGR rows) = BGR (map g rows)"

definition split_facing_pages :: "cv2 \<Rightarrow> image \<Rightarrow> int option \<Rightarrow> int \<Rightarrow> image \<times> image" where
  "split_facing_pages cv img gutter_x overlap =
     (let w = int (image_w img);
          gx = (case gutter_x of None \<Rightarrow> find_gutter_position cv img | Some g \<Rightarrow> g);
          left_end = min (gx + overlap) w;
          right_start = max (gx - overlap) 0
      in (map_rows (slice_to left_end) (slice_to left_end) img,
          map_rows (slice_from right_start) (slice_from right_start) img))"

text \<open>
  A raster is rectangular: every row has the width of the first. Two pages side by
  side form the raster whose rows are the rows of the left page followed by those of
  the right page.
\<close>

fun rect :: "image \<Rightarrow> bool" where
  "rect (Gray rows) = list_all (\<lambda>r. length r = shape_w rows) rows"
| "rect (BGR rows) = list_all (\<lambda>r. length r = shape_w rows) rows"

fun hstack :: "image \<Rightarrow> image \<Rightarrow> image" where
  "hstack (Gray a) (Gray b) = Gray (map (\<lambda>(l, r). l @ r) (zip a b))"
| "hstack (BGR a) (BGR b) = BGR (map (\<lambda>(l, r). l @ r) (zip a b))"
| "hstack (Gray a) (BGR b) = Gray a"
| "hstack (BGR a) (Gray b) = BGR a"

section \<open>Facing-page classifier (detection.py)\<close>

fun running_max :: "real \<Rightarrow> real list \<Rightarrow> real list" where
  "running_max m [] = []"
| "running_max m (x # xs) = max m x # running_max (max m x) xs"

definition maximum_accumulate :: "real list \<Rightarrow> real list" where
  "maximum_accumulate xs = (case xs of [] \<Rightarrow> [] | x # r \<Rightarrow> x # running_max x r)"

definition best_saddle_valley :: "real list \<Rightarrow> nat \<times> real" where
  "best_saddle_valley curve =
     (let n = length curve
      in if n < 3 then (n div 2, 0)
         else
           (let pad0 = max 5 (n div 20);
                pad = (if n \<le> pad0 * 2 + 1 then 1 else pad0);
                left_max = maximum_accumulate curve;
                right_max = rev (maximum_accumulate (rev curve));
                left_peak = 0 # butlast left_max;
                right_peak = tl right_max @ [0];
                min_peak = map (\<lambda>(l, r). min l r) (zip left_peak right_peak);
                score = mask_ends pad (map (\<lambda>(p, c). p - c) (zip min_peak curve));
                idx = np_argmax score
            in case score ! idx of
                 None \<Rightarrow> (n div 2, 0)
               | Some best_score \<Rightarrow>
                   (let best_peak = min_peak ! idx
                    in if best_score \<le> 0 \<or> best_peak \<le> 0 then (n div 2, 0)
                       else (idx, min 1 (max 0 (best_score / (best_peak + 1 / 10 ^ 9)))))))"

text \<open>Fraction of non-zero entries of an edge map: \<open>np.mean(edges > 0)\<close>.\<close>

definition density :: "gray_image \<Rightarrow> real" where
  "density strip = np_mean (map (\<lambda>p. if 0 < p then 1 else 0) (concat strip))"

text \<open>
  The three confidences over the central window, lines 191 to 215; \<open>None\<close> when the
  window is too narrow for the block to run.
\<close>

definition valley_signals :: "cv2 \<Rightarrow> gray_image \<Rightarrow> gray_image \<Rightarrow> (real \<times> real \<times> real) option" where
  "valley_signals cv gray_small edges =
     (let h_s = shape_h gray_small; w_s = shape_w gray_small;
          start = nat (py_int (real w_s * 0.05));
          stop = nat (py_int (real w_s * 0.95))
      in if start + 10 < stop
         then
           (let region = py_cols start stop gray_small;
                region_w = shape_w region;
                proj_s = smooth_1d cv (ink_projection region) (max 9 (region_w div 20));
                valley_conf = snd (best_saddle_valley proj_s);
                edge_s = smooth_1d cv (edge_projection (py_cols start stop edges))
                           (max 9 (region_w div 20));
                edge_conf = snd (best_saddle_valley edge_s);
                sample = (if 4 < h_s then stride4 region else region);
                bg_s = smooth_1d cv (percentile90_cols cv (map (map real) sample))
                         (max 11 (region_w div 15));
                mean_bg = (if bg_s \<noteq> [] then np_mean bg_s else 0);
                min_bg = (if bg_s \<noteq> [] then Min (set bg_s) else mean_bg);
                shadow_conf =
                  (if 0 < mean_bg then min 1 (max 0 ((mean_bg - min_bg) / mean_bg * 2)) else 0)
            in Some (valley_conf, edge_conf, shadow_conf))
         else None)"

definition window_vote :: "(real \<times> real \<times> real) option \<Rightarrow> bool" where
  "window_vote sig =
     (case sig of
        None \<Rightarrow> False
      | Some (valley_conf, edge_conf, shadow_conf) \<Rightarrow>
          if 0.55 \<le> valley_conf then True
          else if 0.45 \<le> shadow_conf then True
          else if 0.35 \<le> valley_conf \<and> 0.25 \<le> edge_conf then True
          else False)"

text \<open>
  The final fallback, lines 261 to 307. Its \<open>try\<close> block turns every exception into
  "no decision"; the division by the width is the one modelled here.
\<close>

definition gutter_fallback :: "cv2 \<Rightarrow> image \<Rightarrow> gray_image \<Rightarrow> gray_image \<Rightarrow> bool" where
  "gutter_fallback cv img gray_small edges =
     (let w = image_w img;
          h_s = shape_h gray_small; w_s = shape_w gray_small
      in if w = 0 then False
         else
           (let gutter_x = find_gutter_position cv img;
                gx_s = nat (max 0 (min (int w_s - 1)
                         (py_round (real_of_int gutter_x * (real w_s / real w)))));
                proj_full = smooth_1d cv (ink_projection gray_small) (max 9 (w_s div 20));
                mean_ink = (if proj_full \<noteq> [] then np_mean proj_full else 0);
                at_ink = (if proj_full \<noteq> [] then proj_full ! gx_s else mean_ink);
                white_valley_depth = (if 0 < mean_ink then (mean_ink - at_ink) / mean_ink else 0);
                shadow_curve = smooth_1d cv (column_means (margin_sample gray_small h_s))
                                 (max 11 (w_s div 20));
                mean_sh = (if shadow_curve \<noteq> [] then np_mean shadow_curve else 0);
                at_sh = (if shadow_curve \<noteq> [] then shadow_curve ! gx_s else mean_sh);
                dark_dip = (if 0 < mean_sh then (mean_sh - at_sh) / mean_sh else 0);
                win = max 12 (w_s div 60);
                a = gx_s - win;
                b = min w_s (gx_s + win);
                center_ed = (if a < b then density (py_cols a b edges) else 1);
                overall_ed = (if concat edges \<noteq> [] then density edges else 0);
                gx_norm = real_of_int gutter_x / real (max 1 w)
            in if 0.12 \<le> white_valley_depth \<and> 0 < overall_ed \<and> center_ed < overall_ed * 0.80
               then True
               else if 0.20 \<le> white_valley_depth then True
               else if 0.15 \<le> gx_norm \<and> gx_norm \<le> 0.85 \<and> 0.06 \<le> dark_dip then True
               else False))"

definition detect_facing_pages :: "cv2 \<Rightarrow> image \<Rightarrow> py_error + bool" where
  "detect_facing_pages cv img =
     (let h = image_h img; w = image_w img
      in if h = 0 then Inl ZeroDivisionError
         else if real w / real h < 1.05 then Inr False
         else
           (let gray_small = analysis_gray cv img;
                w_s = shape_w gray_small;
                edges = Canny cv gray_small
            in if window_vote (valley_signals cv gray_small edges) then Inr True
               else
                 (let center_width = w_s div 5;
                      center_x = w_s div 2;
                      lo = center_x - center_width div 2;
                      hi = center_x + center_width div 2;
                      col_means = column_means (py_cols lo hi gray_small)
                  in if col_means = [] then Inl ValueError
                     else
                       (let center_brightness = Max (set col_means);
                            left_strip = py_cols 0 center_width gray_small;
                            right_strip = last_cols center_width gray_small;
                            edge_brightness =
                              (np_mean (pixels left_strip) + np_mean (pixels right_strip)) / 2;
                            brightness_diff = center_brightness - edge_brightness
                        in if 20 < brightness_diff then Inr True
                           else
                             (let center_density = density (py_cols lo hi edges);
                                  edge_density =
                                    (density (py_cols 0 center_width edges)
                                       + density (last_cols center_width edges)) / 2
                              in if 0 < edge_density \<and> center_density < edge_density * 0.6
                                 then Inr True
                                 else if gutter_fallback cv img gray_small edges then Inr True
                                 else Inr False)))))"

section \<open>Content-bounds locator (detection.py)\<close>

record content_bounds =
  box_x :: int
  box_y :: int
  box_width :: int
  box_height :: int

definition zero_border :: "nat \<Rightarrow> gray_image \<Rightarrow> gray_image" where
  "zero_border border binary =
     (if border = 0 then binary
      else
        map (\<lambda>(i, row).
               map (\<lambda>(j, p).
                      if i < border \<or> length binary - border \<le> i
                         \<or> j < border \<or> length row - border \<le> j
                      then 0 else p)
                 (enumerate 0 row))
          (enumerate 0 binary))"

definition flatnonzero :: "nat list \<Rightarrow> nat list" where
  "flatnonzero v = filter (\<lambda>i. v ! i \<noteq> 0) [0..<length v]"

text \<open>Lines 476 to 487: the box clamped to the bounds of the original image.\<close>

definition clamp_to_image :: "int \<Rightarrow> int \<Rightarrow> int \<Rightarrow> int \<Rightarrow> int \<Rightarrow> int \<Rightarrow> content_bounds" where
  "clamp_to_image w h x0 y0 bw0 bh0 =
     (let x1 = max 0 (min x0 (w - 1));
          y1 = max 0 (min y0 (h - 1));
          bw = max 1 (min bw0 (w - x1));
          bh = max 1 (min bh0 (h - y1))
      in \<lparr>box_x = x1, box_y = y1, box_width = bw, box_height = bh\<rparr>)"

definition detect_content_bounds :: "cv2 \<Rightarrow> image \<Rightarrow> content_bounds option" where
  "detect_content_bounds cv img =
     (let gray = to_gray cv img;
          h = int (shape_h gray); w = int (shape_w gray);
          rs = resize_for_analysis cv gray 1500;
          gray_small = fst rs; scale = snd rs;
          binary0 = threshold_BINARY_INV_OTSU cv gray_small;
          border = nat (py_round (real (min (shape_h binary0) (shape_w binary0)) * 0.01));
          binary = zero_border border binary0;
          row_max = map (\<lambda>r. fold max r 0) binary;
          col_max = map (\<lambda>c. fold max c 0) (columns_of binary);
          ys = flatnonzero row_max;
          xs = flatnonzero col_max
      in if ys = [] \<or> xs = [] then None
         else
           (let x1_s = int (hd xs); x2_s = int (last xs);
                y1_s = int (hd ys); y2_s = int (last ys);
                bw_s = x2_s - x1_s + 1;
                bh_s = y2_s - y1_s + 1
            in if real_of_int bw_s < real (shape_w binary) * 0.1
                  \<or> real_of_int bh_s < real (shape_h binary) * 0.1
               then None
               else
                 (let inv = 1 / scale;
                      x0 = py_round (real_of_int x1_s * inv);
                      y0 = py_round (real_of_int y1_s * inv);
                      bw0 = py_round (real_of_int bw_s * inv);
                      bh0 = py_round (real_of_int bh_s * inv)
                  in Some (clamp_to_image w h x0 y0 bw0 bh0))))"

section \<open>Rotation classifier (stages/rotation.py)\<close>

text \<open>
  A score map is a dictionary over the four rotations, in the order 0, 90, 180, 270.
  \<open>detect_text_orientation\<close> builds its two kernels, of sizes \<open>(w // 20, 1)\<close> and
  \<open>(1, h // 20)\<close>, before it opens the binarisation with them.
\<close>

datatype rotation = R0 | R90 | R180 | R270

type_synonym scores = "rotation \<Rightarrow> real"







text \<open>
  \<open>detect_rotation\<close>: the three sub-scorers in the order of the source, then the
  weighted vote of lines 61 to 103, which is \<open>combine_scores\<close>, a function of the three
  score maps. A result voted from scores that are not numbers is \<open>None\<close>.
\<close>

record rotation_result =
  rotation :: rotation
  rotation_confidence :: real
  rotation_method :: string
  combined_scores :: scores





section \<open>Concrete rasters and primitives for evaluation\<close>

text \<open>
  \<open>cv_blank\<close> is an instance of the primitives that finds nothing: no edges, no
  contours, no segments, no long structures, an all-background binarisation, a blur
  and a rotation that leave their input as it is. The other instances differ from it in one or two
  primitives. \<open>bounding_rect\<close> is the upright bounding rectangle of a point list.
\<close>

definition bounding_rect :: "contour \<Rightarrow> int \<times> int \<times> int \<times> int" where
  "bounding_rect c =
     (case c of
        [] \<Rightarrow> (0, 0, 0, 0)
      | p # ps \<Rightarrow>
          (let x0 = fold min (map fst ps) (fst p); x1 = fold max (map fst ps) (fst p);
               y0 = fold min (map snd ps) (snd p); y1 = fold max (map snd ps) (snd p)
           in (x0, y0, x1 - x0 + 1, y1 - y0 + 1)))"

definition cv_blank :: cv2 where
  "cv_blank =
     \<lparr>cvtColor_BGR2GRAY = map (map (\<lambda>(b, g, r). g)),
      resize_INTER_AREA = (\<lambda>g w h. replicate h (replicate w 255)),
      threshold_BINARY_INV_OTSU = map (map (\<lambda>p. 0)),
      dilate_RECT = (\<lambda>g kw kh. g),
      morphologyEx_OPEN = (\<lambda>g kw kh. map (map (\<lambda>p. 0)) g),
      findContours_EXTERNAL = (\<lambda>g. []),
      boundingRect = bounding_rect,
      polyfit2 = (\<lambda>xs ys. None),
      Canny = map (map (\<lambda>p. 0)),
      HoughLinesP = (\<lambda>g min_len max_gap. None),
      GaussianBlur_row = (\<lambda>row k. row),
      percentile90_cols = (\<lambda>rows. case rows of [] \<Rightarrow> [] | r # _ \<Rightarrow> r),
      warpAffine_rotate = (\<lambda>g a. g)\<rparr>"

definition uniform_page :: "nat \<Rightarrow> nat \<Rightarrow> nat \<Rightarrow> gray_image" where
  "uniform_page v h w = replicate h (replicate w v)"




text \<open>
  One detected segment, from (0, 0) to (100, 10): a text line tilted by the angle
  whose tangent is one tenth, a little under six degrees.
\<close>

definition tilted_lines :: "segment list" where
  "tilted_lines = [(0, 0, 100, 10)]"

definition cv_tilted :: cv2 where
  "cv_tilted = cv_blank \<lparr>HoughLinesP := (\<lambda>g min_len max_gap. Some tilted_lines)\<rparr>"

text \<open>A raster of vertical stripes, black and white columns alternating.\<close>

definition striped_page :: "nat \<Rightarrow> nat \<Rightarrow> gray_image" where
  "striped_page h k = replicate h (concat (replicate k [0, 255]))"

text \<open>
  A binarisation at the fixed level 128, and a white raster of four rows and columns
  with a dark block of two by two in its middle.
\<close>

definition cv_ink :: cv2 where
  "cv_ink = cv_blank
     \<lparr>threshold_BINARY_INV_OTSU := map (map (\<lambda>p. if p < 128 then 255 else 0))\<rparr>"

definition boxed_page :: gray_image where
  "boxed_page =
     [[255, 255, 255, 255],
      [255, 0, 0, 255],
      [255, 0, 0, 255],
      [255, 255, 255, 255]]"




section \<open>Verified properties\<close>

subsection \<open>Curvature score\<close>

lemma shape_h_uniform: "shape_h (uniform_page v h w) = h"
  by (simp add: shape_h_def uniform_page_def)

lemma shape_w_uniform: "0 < h \<Longrightarrow> shape_w (uniform_page v h w) = w"
  by (cases h) (simp_all add: shape_w_def uniform_page_def)

lemma resize_small:
  "max (shape_h g) (shape_w g) \<le> m \<Longrightarrow> resize_for_analysis cv g m = (g, 1)"
  by (simp add: resize_for_analysis_def Let_def)


lemma np_mean_nonneg: "(\<And>c. c \<in> set xs \<Longrightarrow> 0 \<le> c) \<Longrightarrow> 0 \<le> np_mean xs"
  by (simp add: np_mean_def sum_list_nonneg)









subsection \<open>Line-based skew estimate\<close>

lemma arctan_le_self: "0 \<le> x \<Longrightarrow> arctan x \<le> x"
proof (cases "x = 0")
  case True
  then show ?thesis by simp
next
  case False
  assume "0 \<le> x"
  with False have pos: "0 < x" by simp
  have "\<exists>z. 0 < z \<and> z < x \<and> arctan x - arctan 0 = (x - 0) * inverse (1 + z\<^sup>2)"
    by (rule MVT2 [OF pos]) (rule DERIV_arctan)
  then obtain z where z: "arctan x = x * inverse (1 + z\<^sup>2)" by auto
  have "inverse (1 + z\<^sup>2) \<le> 1"
    by (simp add: inverse_le_1_iff)
  with pos have "x * inverse (1 + z\<^sup>2) \<le> x * 1"
    by (intro mult_left_mono) simp_all
  with z show ?thesis by simp
qed

lemma tilt_angle_pos: "0 < segment_angle 100 10"
  by (simp add: segment_angle_def arctan2_def)

lemma tilt_angle_le: "segment_angle 100 10 \<le> 9"
proof -
  have a: "arctan (1 / 10) \<le> 1 / 10" by (rule arctan_le_self) simp
  have "arctan (1 / 10) * 180 \<le> 18" using a by simp
  also have "18 \<le> 9 * pi" using pi_ge_two by simp
  finally have "arctan (1 / 10) * 180 / pi \<le> 9"
    by (simp add: pos_divide_le_eq)
  then show ?thesis by (simp add: segment_angle_def arctan2_def)
qed

lemma page_accepted_tilted: "page_accepted 15 tilted_lines = [(segment_angle 100 10, sqrt 10100)]"
  using tilt_angle_pos tilt_angle_le by (simp add: Let_def tilted_lines_def)

lemma tilted_lines_nonempty: "tilted_lines \<noteq> []"
  by (simp add: tilted_lines_def)





lemma stage_accepted_tilted:
  "stage_accepted 15 tilted_lines = [(segment_angle 100 10, Some (sqrt 10100))]"
  using tilt_angle_pos tilt_angle_le by (simp add: Let_def tilted_lines_def wrap32_def)










lemma stage_found:
  assumes "stage_hough_lines cv gray = Inr (Some lines)"
    and "stage_accepted max_angle lines \<noteq> []"
  shows "detect_skew_hough cv gray max_angle =
     Inr \<lparr>hough_angle =
            (case numbers (map snd (stage_accepted max_angle lines)) of
               None \<Rightarrow> None
             | Some lengths \<Rightarrow>
                 if sum_list lengths = 0
                 then Some (np_median (map fst (stage_accepted max_angle lines)))
                 else Some (weighted_mean_angle (map fst (stage_accepted max_angle lines))
                              lengths)),
          hough_confidence =
            0.7 * max 0 (1 - (if 1 < length (stage_accepted max_angle lines)
                              then np_std (map fst (stage_accepted max_angle lines))
                              else 0) / 5)
            + 0.3 * min 1 (real (length (stage_accepted max_angle lines)) / 20),
          lines_count = length (stage_accepted max_angle lines)\<rparr>"
proof -
  from assms(2) have "lines \<noteq> []" by auto
  with assms show ?thesis
    by (simp add: detect_skew_hough_def Let_def mult.commute)
qed

lemma shape_h_striped: "shape_h (striped_page h k) = h"
  by (simp add: shape_h_def striped_page_def)

lemma length_concat_replicate: "length (concat (replicate k xs)) = k * length xs"
  by (induction k) simp_all

lemma shape_w_striped: "0 < h \<Longrightarrow> shape_w (striped_page h k) = 2 * k"
  by (cases h) (simp_all add: shape_w_def striped_page_def length_concat_replicate)

lemma page_lines_tilted: "page_hough_lines cv_tilted g = Some tilted_lines"
  by (simp add: page_hough_lines_def cv_tilted_def cv_blank_def)

lemma stage_lines_tilted:
  "30 \<le> shape_w g \<Longrightarrow> stage_hough_lines cv_tilted g = Inr (Some tilted_lines)"
  by (simp add: stage_hough_lines_def getStructuringElement_def div_eq_0_iff cv_tilted_def
      cv_blank_def)


lemma weighted_mean_single: "l \<noteq> 0 \<Longrightarrow> weighted_mean_angle [a] [l] = a"
  by (simp add: weighted_mean_angle_def)


lemma stage_tilted:
  "detect_skew_hough cv_tilted (striped_page 40 60) 15 =
     Inr \<lparr>hough_angle = Some (segment_angle 100 10), hough_confidence = 143 / 200,
          lines_count = 1\<rparr>"
proof -
  have "stage_hough_lines cv_tilted (striped_page 40 60) = Inr (Some tilted_lines)"
    by (rule stage_lines_tilted) (simp add: shape_w_striped)
  from stage_found [OF this, of 15] show ?thesis
    by (simp add: stage_accepted_tilted weighted_mean_single)
qed




lemma np_var_nonneg: "0 \<le> np_var xs"
  unfolding np_var_def by (rule np_mean_nonneg) auto

lemma np_std_nonneg: "0 \<le> np_std xs"
  by (simp add: np_std_def np_var_nonneg)

text \<open>
  Claim C3, amended: on n accepted segment angles with standard deviation s (0 when
  n = 1), the whole-page estimator reports 0.7 * max(0, 1 - s/4) + 0.3 * min(1, n/15)
  clamped to the interval from 0 to 1, and the stage estimator reports
  0.7 * max(0, 1 - s/5) + 0.3 * min(1, n/20), which lies in the same interval.
\<close>

theorem hough_confidence_by_variant:
  "(10 \<le> shape_h gray \<and> 10 \<le> shape_w gray \<and> page_hough_lines cv gray = Some lines
      \<and> page_accepted max_angle lines \<noteq> []
    \<longrightarrow> snd (page_detect_skew_hough cv gray max_angle)
          = (let angles = map fst (page_accepted max_angle lines);
                 s = (if 1 < length angles then np_std angles else 0);
                 n = real (length angles)
             in min 1 (max 0 (0.7 * max 0 (1 - s / 4) + 0.3 * min 1 (n / 15)))))
   \<and> (stage_hough_lines cv gray = Inr (Some lines) \<and> stage_accepted max_angle lines \<noteq> []
    \<longrightarrow> (\<exists>res. detect_skew_hough cv gray max_angle = Inr res
          \<and> hough_confidence res
              = (let angles = map fst (stage_accepted max_angle lines);
                     s = (if 1 < length angles then np_std angles else 0);
                     n = real (length angles)
                 in 0.7 * max 0 (1 - s / 5) + 0.3 * min 1 (n / 20))
          \<and> 0 \<le> hough_confidence res
          \<and> hough_confidence res \<le> 1))"
proof (intro conjI impI)
  assume a: "10 \<le> shape_h gray \<and> 10 \<le> shape_w gray \<and> page_hough_lines cv gray = Some lines
      \<and> page_accepted max_angle lines \<noteq> []"
  then have "lines \<noteq> []" by auto
  with a show "snd (page_detect_skew_hough cv gray max_angle)
          = (let angles = map fst (page_accepted max_angle lines);
                 s = (if 1 < length angles then np_std angles else 0);
                 n = real (length angles)
             in min 1 (max 0 (0.7 * max 0 (1 - s / 4) + 0.3 * min 1 (n / 15))))"
    by (simp add: page_detect_skew_hough_def Let_def mult.commute)
next
  assume a: "stage_hough_lines cv gray = Inr (Some lines)
      \<and> stage_accepted max_angle lines \<noteq> []"
  then have f: "stage_hough_lines cv gray = Inr (Some lines)"
    and ne: "stage_accepted max_angle lines \<noteq> []"
    by simp_all
  define angles where "angles = map fst (stage_accepted max_angle lines)"
  define s where "s = (if 1 < length angles then np_std angles else 0)"
  define u where "u = max 0 (1 - s / 5)"
  define v where "v = min 1 (real (length angles) / 20)"
  define c where "c = 0.7 * u + 0.3 * v"
  from stage_found [OF f ne]
  have "\<exists>res. detect_skew_hough cv gray max_angle = Inr res \<and> hough_confidence res = c"
    by (simp add: c_def u_def v_def s_def angles_def)
  then obtain res where res: "detect_skew_hough cv gray max_angle = Inr res"
    and conf: "hough_confidence res = c"
    by blast
  have s0: "0 \<le> s" by (simp add: s_def np_std_nonneg)
  have m1: "0 \<le> u" "u \<le> 1" using s0 by (simp_all add: u_def)
  have m2: "0 \<le> v" "v \<le> 1" by (simp_all add: v_def)
  have e: "hough_confidence res
          = (let angles = map fst (stage_accepted max_angle lines);
                 s = (if 1 < length angles then np_std angles else 0);
                 n = real (length angles)
             in 0.7 * max 0 (1 - s / 5) + 0.3 * min 1 (n / 20))"
    unfolding conf by (simp add: c_def u_def v_def s_def angles_def Let_def)
  have lo: "0 \<le> hough_confidence res"
    unfolding conf c_def using m1 m2 by linarith
  have hi: "hough_confidence res \<le> 1"
    unfolding conf c_def using m1 m2 by linarith
  from res e lo hi
  show "\<exists>res. detect_skew_hough cv gray max_angle = Inr res
          \<and> hough_confidence res
              = (let angles = map fst (stage_accepted max_angle lines);
                     s = (if 1 < length angles then np_std angles else 0);
                     n = real (length angles)
                 in 0.7 * max 0 (1 - s / 5) + 0.3 * min 1 (n / 20))
          \<and> 0 \<le> hough_confidence res
          \<and> hough_confidence res \<le> 1"
    by blast
qed

theorem hough_confidence_by_variant_witness:
  "snd (page_detect_skew_hough cv_tilted (striped_page 40 60) 15) = 18 / 25
   \<and> map_sum id hough_confidence (detect_skew_hough cv_tilted (striped_page 40 60) 15)
       = Inr (143 / 200)"
proof -
  note t = hough_confidence_by_variant [of "striped_page 40 60" cv_tilted tilted_lines 15]
  have l: "stage_hough_lines cv_tilted (striped_page 40 60) = Inr (Some tilted_lines)"
    by (rule stage_lines_tilted) (simp add: shape_w_striped)
  from t have a: "snd (page_detect_skew_hough cv_tilted (striped_page 40 60) 15) = 18 / 25"
    by (simp add: shape_h_striped shape_w_striped page_lines_tilted page_accepted_tilted)
  from t have b: "map_sum id hough_confidence
      (detect_skew_hough cv_tilted (striped_page 40 60) 15) = Inr (143 / 200)"
    by (auto simp add: l stage_accepted_tilted)
  from a b show ?thesis by simp
qed

text \<open>
  Claim C3, as stated, fails for the stage variant: on one accepted segment it
  reports 0.715, where the claimed blend gives 0.72.
\<close>

theorem stage_hough_confidence_counterexample:
  "length (stage_accepted 15 tilted_lines) = 1
   \<and> map_sum id hough_confidence (detect_skew_hough cv_tilted (striped_page 40 60) 15)
       = Inr (143 / 200)
   \<and> map_sum id hough_confidence (detect_skew_hough cv_tilted (striped_page 40 60) 15)
       \<noteq> Inr (min 1 (max 0 (0.7 * max 0 (1 - 0 / 4) + 0.3 * min 1 (1 / 15))))"
  by (simp add: stage_tilted stage_accepted_tilted)

subsection \<open>Whole-page skew guardrails\<close>

lemma concat_replicate_concat:
  "concat (replicate h (concat (replicate k xs))) = concat (replicate (h * k) xs)"
  by (induction h) (simp_all add: replicate_add)

lemma sum_list_map_concat_replicate:
  "sum_list (map f (concat (replicate n xs))) = real n * sum_list (map f xs)"
  by (induction n) (simp_all add: algebra_simps)

lemma pixels_striped:
  "pixels (striped_page h k) = map real (concat (replicate (h * k) [0, 255]))"
  by (simp add: pixels_def striped_page_def concat_replicate_concat)

lemma np_mean_striped:
  assumes "0 < h * k"
  shows "np_mean (pixels (striped_page h k)) = 255 / 2"
  using assms
  by (simp add: pixels_striped np_mean_def sum_list_map_concat_replicate
      length_concat_replicate)

lemma np_std_striped:
  assumes "0 < h * k"
  shows "np_std (pixels (striped_page h k)) = 255 / 2"
proof -
  have "np_var (pixels (striped_page h k)) = (255 / 2)\<^sup>2"
    unfolding np_var_def np_mean_striped [OF assms]
    using assms
    by (simp add: pixels_striped np_mean_def sum_list_map_concat_replicate
        length_concat_replicate power2_eq_square o_def)
  then show ?thesis by (simp add: np_std_def)
qed


text \<open>
  Claim C4: \<open>detect_skew_angle\<close> returns 0 whenever a guardrail fires (contrast of the
  analysis grayscale below 5, confidence below 0.40, magnitude above 5 degrees with
  confidence below 0.70, magnitude above 10 degrees) and the estimated angle
  otherwise; the returned value has magnitude at most 10.
\<close>

theorem detect_skew_angle_guardrails:
  "detect_skew_angle cv img =
     (let g = analysis_gray cv img;
          est = page_detect_skew_hough cv g 15
      in if (pixels g \<noteq> [] \<and> np_std (pixels g) < 5)
            \<or> snd est < 0.40
            \<or> (5 < \<bar>fst est\<bar> \<and> snd est < 0.70)
            \<or> 10 < \<bar>fst est\<bar>
         then 0 else fst est)
   \<and> \<bar>detect_skew_angle cv img\<bar> \<le> 10"
proof -
  obtain a c where est: "page_detect_skew_hough cv (analysis_gray cv img) 15 = (a, c)"
    by (cases "page_detect_skew_hough cv (analysis_gray cv img) 15") auto
  have eq: "detect_skew_angle cv img =
     (let g = analysis_gray cv img;
          est = page_detect_skew_hough cv g 15
      in if (pixels g \<noteq> [] \<and> np_std (pixels g) < 5)
            \<or> snd est < 0.40
            \<or> (5 < \<bar>fst est\<bar> \<and> snd est < 0.70)
            \<or> 10 < \<bar>fst est\<bar>
         then 0 else fst est)"
    by (simp add: detect_skew_angle_def Let_def est)
  have "\<bar>detect_skew_angle cv img\<bar> \<le> 10"
    unfolding eq by (simp add: Let_def est)
  with eq show ?thesis by blast
qed

theorem detect_skew_angle_guardrails_witness:
  "detect_skew_angle cv_tilted (Gray (striped_page 40 60)) = - segment_angle 100 10
   \<and> \<bar>detect_skew_angle cv_tilted (Gray (striped_page 40 60))\<bar> \<le> 10"
proof -
  have g: "analysis_gray cv_tilted (Gray (striped_page 40 60)) = striped_page 40 60"
    by (simp add: analysis_gray_def resize_small shape_h_striped shape_w_striped)
  have est: "page_detect_skew_hough cv_tilted (striped_page 40 60) 15
      = (- segment_angle 100 10, 18 / 25)"
    by (simp add: page_detect_skew_hough_def shape_h_striped shape_w_striped
        page_lines_tilted page_accepted_tilted tilted_lines_nonempty weighted_mean_single)
  have std: "np_std (pixels (striped_page 40 60)) = 255 / 2"
    by (rule np_std_striped) simp
  show ?thesis
    using detect_skew_angle_guardrails [of cv_tilted "Gray (striped_page 40 60)"]
      tilt_angle_pos tilt_angle_le
    by (simp add: g est std Let_def)
qed

subsection \<open>Fusion of the stage skew estimates\<close>















subsection \<open>Rotation vote\<close>
































subsection \<open>Splitting at a given gutter\<close>

lemma zip_take_drop: "map (\<lambda>(l, r). l @ r) (zip (map (take n) rows) (map (drop n) rows)) = rows"
  by (induction rows) simp_all

lemma shape_w_take:
  "list_all (\<lambda>r. length r = shape_w rows) rows \<Longrightarrow> n \<le> shape_w rows
    \<Longrightarrow> shape_w (map (take n) rows) = n"
  by (cases rows) (simp_all add: shape_w_def)

lemma shape_w_drop:
  "list_all (\<lambda>r. length r = shape_w rows) rows \<Longrightarrow> n \<le> shape_w rows
    \<Longrightarrow> shape_w (map (drop n) rows) = shape_w rows - n"
  by (cases rows) (simp_all add: shape_w_def)

lemma slice_to_nonneg: "0 \<le> k \<Longrightarrow> slice_to k = take (nat k)"
  by (rule ext) (simp add: slice_to_def)

lemma slice_from_nonneg: "0 \<le> k \<Longrightarrow> slice_from k = drop (nat k)"
  by (rule ext) (simp add: slice_from_def)

text \<open>
  Claim C10: on a rectangular raster of width w and a gutter g between 0 and w,
  \<open>split_facing_pages\<close> with no overlap returns the columns before g as the left page
  and the columns from g on as the right page; the widths are g and w - g, the
  heights are unchanged, and the two pages side by side are the raster again.
\<close>

theorem split_facing_pages_partition:
  "rect img \<and> 0 \<le> g \<and> g \<le> int (image_w img) \<longrightarrow>
     fst (split_facing_pages cv img (Some g) 0) = map_rows (take (nat g)) (take (nat g)) img
     \<and> snd (split_facing_pages cv img (Some g) 0) = map_rows (drop (nat g)) (drop (nat g)) img
     \<and> image_w (fst (split_facing_pages cv img (Some g) 0)) = nat g
     \<and> image_w (snd (split_facing_pages cv img (Some g) 0)) = image_w img - nat g
     \<and> image_w (fst (split_facing_pages cv img (Some g) 0))
         + image_w (snd (split_facing_pages cv img (Some g) 0)) = image_w img
     \<and> image_h (fst (split_facing_pages cv img (Some g) 0)) = image_h img
     \<and> image_h (snd (split_facing_pages cv img (Some g) 0)) = image_h img
     \<and> hstack (fst (split_facing_pages cv img (Some g) 0))
          (snd (split_facing_pages cv img (Some g) 0)) = img"
proof
  assume a: "rect img \<and> 0 \<le> g \<and> g \<le> int (image_w img)"
  then have g: "nat g \<le> image_w img" by linarith
  have l: "fst (split_facing_pages cv img (Some g) 0) = map_rows (take (nat g)) (take (nat g)) img"
    using a by (simp add: split_facing_pages_def Let_def slice_to_nonneg min_def)
  have r: "snd (split_facing_pages cv img (Some g) 0) = map_rows (drop (nat g)) (drop (nat g)) img"
    using a by (simp add: split_facing_pages_def Let_def slice_from_nonneg max_def)
  show "fst (split_facing_pages cv img (Some g) 0) = map_rows (take (nat g)) (take (nat g)) img
     \<and> snd (split_facing_pages cv img (Some g) 0) = map_rows (drop (nat g)) (drop (nat g)) img
     \<and> image_w (fst (split_facing_pages cv img (Some g) 0)) = nat g
     \<and> image_w (snd (split_facing_pages cv img (Some g) 0)) = image_w img - nat g
     \<and> image_w (fst (split_facing_pages cv img (Some g) 0))
         + image_w (snd (split_facing_pages cv img (Some g) 0)) = image_w img
     \<and> image_h (fst (split_facing_pages cv img (Some g) 0)) = image_h img
     \<and> image_h (snd (split_facing_pages cv img (Some g) 0)) = image_h img
     \<and> hstack (fst (split_facing_pages cv img (Some g) 0))
          (snd (split_facing_pages cv img (Some g) 0)) = img"
    unfolding l r using a g
    by (cases img) (simp_all add: shape_w_take shape_w_drop zip_take_drop shape_h_def)
qed

theorem split_facing_pages_partition_witness:
  "fst (split_facing_pages cv_blank (Gray [[1, 2, 3, 4], [5, 6, 7, 8]]) (Some 1) 0)
     = Gray [[1], [5]]
   \<and> snd (split_facing_pages cv_blank (Gray [[1, 2, 3, 4], [5, 6, 7, 8]]) (Some 1) 0)
     = Gray [[2, 3, 4], [6, 7, 8]]
   \<and> hstack (fst (split_facing_pages cv_blank (Gray [[1, 2, 3, 4], [5, 6, 7, 8]]) (Some 1) 0))
        (snd (split_facing_pages cv_blank (Gray [[1, 2, 3, 4], [5, 6, 7, 8]]) (Some 1) 0))
     = Gray [[1, 2, 3, 4], [5, 6, 7, 8]]"
  using split_facing_pages_partition [of "Gray [[1, 2, 3, 4], [5, 6, 7, 8]]" 1 cv_blank]
  by (simp add: shape_w_def)

subsection \<open>Facing-page classifier\<close>

text \<open>
  Claim C6: on every image of positive height whose width divided by its height is
  below 1.05, \<open>detect_facing_pages\<close> returns false, whatever the pixels are.
\<close>

theorem detect_facing_pages_weak_gate:
  "0 < image_h img \<and> real (image_w img) / real (image_h img) < 1.05
    \<longrightarrow> detect_facing_pages cv img = Inr False"
  by (simp add: detect_facing_pages_def Let_def)

theorem detect_facing_pages_weak_gate_witness:
  "detect_facing_pages cv_blank (Gray boxed_page) = Inr False"
  using detect_facing_pages_weak_gate [of "Gray boxed_page" cv_blank]
  by (simp add: boxed_page_def shape_h_def shape_w_def)

lemma column_means_empty_strip: "b \<le> a \<Longrightarrow> column_means (py_cols a b g) = []"
  by (cases g) (simp_all add: column_means_def columns_of_def py_cols_def shape_w_def)

text \<open>
  Claim C9 fails on a narrow wide-format raster: on the all-white grayscale raster of
  3 rows and 4 columns, \<open>detect_facing_pages\<close> raises ValueError (the centre strip is
  empty, and the maximum of its column means does not exist) instead of returning
  false. The width-to-height ratio is 4/3, so the weak gate does not apply.
\<close>

theorem detect_facing_pages_blank_narrow:
  "detect_facing_pages cv (Gray (uniform_page 255 3 4)) = Inl ValueError"
proof -
  have h: "shape_h (uniform_page 255 3 4) = 3" by (rule shape_h_uniform)
  have w: "shape_w (uniform_page 255 3 4) = 4" by (rule shape_w_uniform) simp
  have g: "analysis_gray cv (Gray (uniform_page 255 3 4)) = uniform_page 255 3 4"
    by (simp add: analysis_gray_def resize_small h w)
  have v: "valley_signals cv (uniform_page 255 3 4) e = None" for e
    by (simp add: valley_signals_def Let_def h w py_int_def)
  show ?thesis
    by (simp add: detect_facing_pages_def Let_def h w g v column_means_empty_strip
        window_vote_def)
qed

subsection \<open>Coordinates of the content box and of the gutter\<close>

lemma gutter_center_bounds:
  "py_int (real w * 0.03) \<le> int (w div 2) \<and> int (w div 2) \<le> py_int (real w * 0.97)"
proof -
  have lo: "\<lfloor>real w * 0.03\<rfloor> \<le> int (w div 2)"
  proof -
    have "real w * 0.03 \<le> real w / 2" by simp
    then have "\<lfloor>real w * 0.03\<rfloor> \<le> \<lfloor>real w / 2\<rfloor>" by (rule floor_mono)
    also have "\<lfloor>real w / 2\<rfloor> = int (w div 2)"
      by (simp add: floor_divide_of_nat_eq [of w 2, simplified])
    finally show ?thesis .
  qed
  have hi: "int (w div 2) \<le> \<lfloor>real w * 0.97\<rfloor>"
  proof -
    have "2 * (w div 2) \<le> w" by simp
    then have "real (2 * (w div 2)) \<le> real w" by (simp only: of_nat_le_iff)
    then have "real (w div 2) \<le> real w / 2" by simp
    also have "\<dots> \<le> real w * 0.97" by simp
    finally have "real_of_int (int (w div 2)) \<le> real w * 0.97" by simp
    then show ?thesis by (simp only: le_floor_iff)
  qed
  show ?thesis using lo hi by (simp add: py_int_def)
qed

lemma gutter_clamp_bounds:
  "py_int (real w * 0.03) \<le> max (py_int (real w * 0.03)) (min (py_int (real w * 0.97)) g)
   \<and> max (py_int (real w * 0.03)) (min (py_int (real w * 0.97)) g) \<le> py_int (real w * 0.97)"
proof -
  have "\<lfloor>real w * 0.03\<rfloor> \<le> \<lfloor>real w * 0.97\<rfloor>" by (rule floor_mono) simp
  then show ?thesis by (simp add: py_int_def)
qed

lemma gutter_range: "0 \<le> py_int (real w * 0.03) \<and> py_int (real w * 0.97) \<le> int w"
proof -
  have "real w * 0.97 \<le> real w" by simp
  then have "\<lfloor>real w * 0.97\<rfloor> \<le> \<lfloor>real w\<rfloor>" by (rule floor_mono)
  then show ?thesis by (simp add: py_int_def)
qed

lemma find_gutter_position_bounds:
  "py_int (real (image_w img) * 0.03) \<le> find_gutter_position cv img
   \<and> find_gutter_position cv img \<le> py_int (real (image_w img) * 0.97)"
  unfolding find_gutter_position_def Let_def
  using gutter_center_bounds [of "image_w img"] gutter_clamp_bounds [of "image_w img"]
  by (simp only: split: if_splits) blast


lemma clamp_to_image_box:
  assumes "1 \<le> w" and "1 \<le> h"
  shows "0 \<le> box_x (clamp_to_image w h x0 y0 bw0 bh0)
    \<and> 0 \<le> box_y (clamp_to_image w h x0 y0 bw0 bh0)
    \<and> 1 \<le> box_width (clamp_to_image w h x0 y0 bw0 bh0)
    \<and> 1 \<le> box_height (clamp_to_image w h x0 y0 bw0 bh0)
    \<and> box_x (clamp_to_image w h x0 y0 bw0 bh0) + box_width (clamp_to_image w h x0 y0 bw0 bh0) \<le> w
    \<and> box_y (clamp_to_image w h x0 y0 bw0 bh0) + box_height (clamp_to_image w h x0 y0 bw0 bh0) \<le> h"
  using assms by (auto simp: clamp_to_image_def Let_def)

lemma detect_content_bounds_clamped:
  assumes "detect_content_bounds cv img = Some b"
  shows "\<exists>x0 y0 bw0 bh0.
    b = clamp_to_image (int (shape_w (to_gray cv img))) (int (shape_h (to_gray cv img)))
          x0 y0 bw0 bh0"
  using assms unfolding detect_content_bounds_def Let_def
  by (auto split: if_splits)

lemma detect_content_bounds_box:
  assumes "detect_content_bounds cv img = Some b"
    and "0 < shape_w (to_gray cv img)" and "0 < shape_h (to_gray cv img)"
  shows "0 \<le> box_x b \<and> 0 \<le> box_y b
    \<and> 1 \<le> box_width b \<and> 1 \<le> box_height b
    \<and> box_x b + box_width b \<le> int (shape_w (to_gray cv img))
    \<and> box_y b + box_height b \<le> int (shape_h (to_gray cv img))"
proof -
  have w: "1 \<le> int (shape_w (to_gray cv img))" using assms(2) by simp
  have h: "1 \<le> int (shape_h (to_gray cv img))" using assms(3) by simp
  from detect_content_bounds_clamped [OF assms(1)] obtain x0 y0 bw0 bh0 where
    b: "b = clamp_to_image (int (shape_w (to_gray cv img))) (int (shape_h (to_gray cv img)))
          x0 y0 bw0 bh0"
    by blast
  show ?thesis unfolding b by (rule clamp_to_image_box [OF w h])
qed


lemma boxed_shape: "shape_h boxed_page = 4" "shape_w boxed_page = 4"
  by (simp_all add: boxed_page_def shape_h_def shape_w_def)

lemma boxed_binary:
  "threshold_BINARY_INV_OTSU cv_ink boxed_page
     = [[0, 0, 0, 0], [0, 255, 255, 0], [0, 255, 255, 0], [0, 0, 0, 0]]"
  by (simp add: cv_ink_def cv_blank_def boxed_page_def)

lemma upt4: "[0..<4] = [0, 1, 2, 3]"
  by (simp add: upt_rec)

lemma boxed_rows:
  "map (\<lambda>r. fold max r 0) [[0, 0, 0, 0], [0, 255, 255, 0], [0, 255, 255, 0], [0, 0, 0, 0::nat]]
    = [0, 255, 255, 0]"
  by simp

lemma boxed_cols:
  "map (\<lambda>c. fold max c 0)
     (columns_of [[0, 0, 0, 0], [0, 255, 255, 0], [0, 255, 255, 0], [0, 0, 0, 0::nat]])
    = [0, 255, 255, 0]"
  by (simp add: columns_of_def shape_w_def upt4)

lemma boxed_nonzero: "flatnonzero [0, 255, 255, 0] = [1, 2]"
  by (simp add: flatnonzero_def upt4)

lemma boxed_gutter: "find_gutter_position cv_ink (Gray boxed_page) = 2"
  by (simp add: find_gutter_position_def Let_def resize_small boxed_shape py_int_def)



lemma binary_shape:
  "shape_h [[0, 0, 0, 0], [0, 255, 255, 0], [0, 255, 255, 0], [0, 0, 0, 0::nat]] = 4"
  "shape_w [[0, 0, 0, 0], [0, 255, 255, 0], [0, 255, 255, 0], [0, 0, 0, 0::nat]] = 4"
  by (simp_all add: shape_h_def shape_w_def)

lemma zero_border_none: "zero_border 0 b = b"
  by (simp add: zero_border_def)

lemma boxed_bounds:
  "detect_content_bounds cv_ink (Gray boxed_page)
     = Some \<lparr>box_x = 1, box_y = 1, box_width = 2, box_height = 2\<rparr>"
proof -
  have r: "resize_for_analysis cv_ink boxed_page 1500 = (boxed_page, 1)"
    by (rule resize_small) (simp add: boxed_shape)
  have c: "clamp_to_image 4 4 1 1 2 2 = \<lparr>box_x = 1, box_y = 1, box_width = 2, box_height = 2\<rparr>"
    by (simp add: clamp_to_image_def)
  have rd: "py_round 1 = 1" "py_round 2 = 2" "py_round (1 / 25) = 0"
    by (simp_all add: py_round_def)
  show ?thesis
    unfolding detect_content_bounds_def Let_def to_gray.simps r fst_conv snd_conv
      boxed_binary binary_shape
    by (simp add: zero_border_none boxed_rows boxed_cols boxed_nonzero
        binary_shape boxed_shape rd c)
qed


text \<open>
  Claim C7: a box returned by \<open>detect_content_bounds\<close> for an image of positive width
  w and height h (whose grayscale conversion keeps these dimensions) has
  0 \<le> x, 0 \<le> y, width and height at least 1, x + width \<le> w and y + height \<le> h;
  \<open>find_gutter_position\<close> returns an x with floor(0.03 w) \<le> x \<le> floor(0.97 w),
  hence 0 \<le> x \<le> w. Neither depends on whether the analysis raster was downscaled.
\<close>

theorem coordinate_invariance:
  "(detect_content_bounds cv img = Some b
      \<and> 0 < image_w img \<and> 0 < image_h img
      \<and> shape_w (to_gray cv img) = image_w img \<and> shape_h (to_gray cv img) = image_h img
    \<longrightarrow> 0 \<le> box_x b \<and> 0 \<le> box_y b \<and> 1 \<le> box_width b \<and> 1 \<le> box_height b
        \<and> box_x b + box_width b \<le> int (image_w img)
        \<and> box_y b + box_height b \<le> int (image_h img))
   \<and> \<lfloor>0.03 * real (image_w img)\<rfloor> \<le> find_gutter_position cv img
   \<and> find_gutter_position cv img \<le> \<lfloor>0.97 * real (image_w img)\<rfloor>
   \<and> 0 \<le> find_gutter_position cv img
   \<and> find_gutter_position cv img \<le> int (image_w img)"
proof -
  have box: "0 \<le> box_x b \<and> 0 \<le> box_y b \<and> 1 \<le> box_width b \<and> 1 \<le> box_height b
        \<and> box_x b + box_width b \<le> int (image_w img)
        \<and> box_y b + box_height b \<le> int (image_h img)"
    if "detect_content_bounds cv img = Some b
      \<and> 0 < image_w img \<and> 0 < image_h img
      \<and> shape_w (to_gray cv img) = image_w img \<and> shape_h (to_gray cv img) = image_h img"
    using detect_content_bounds_box [of cv img b] that by simp
  have fl: "py_int (real (image_w img) * 0.03) = \<lfloor>0.03 * real (image_w img)\<rfloor>"
    "py_int (real (image_w img) * 0.97) = \<lfloor>0.97 * real (image_w img)\<rfloor>"
    by (simp_all add: py_int_def mult.commute)
  have g: "\<lfloor>0.03 * real (image_w img)\<rfloor> \<le> find_gutter_position cv img"
    "find_gutter_position cv img \<le> \<lfloor>0.97 * real (image_w img)\<rfloor>"
    using find_gutter_position_bounds [of img cv] unfolding fl by simp_all
  have r: "0 \<le> \<lfloor>0.03 * real (image_w img)\<rfloor>" "\<lfloor>0.97 * real (image_w img)\<rfloor> \<le> int (image_w img)"
    using gutter_range [of "image_w img"] unfolding fl by simp_all
  have p: "0 \<le> find_gutter_position cv img" using g(1) r(1) by linarith
  have q: "find_gutter_position cv img \<le> int (image_w img)" using g(2) r(2) by linarith
  from box g p q show ?thesis by blast
qed

theorem coordinate_invariance_witness:
  "detect_content_bounds cv_ink (Gray boxed_page)
     = Some \<lparr>box_x = 1, box_y = 1, box_width = 2, box_height = 2\<rparr>
   \<and> image_w (Gray boxed_page) = 4 \<and> image_h (Gray boxed_page) = 4
   \<and> (1::int) + 2 \<le> 4
   \<and> find_gutter_position cv_ink (Gray boxed_page) = 2
   \<and> \<lfloor>0.03 * real (image_w (Gray boxed_page))\<rfloor> \<le> find_gutter_position cv_ink (Gray boxed_page)
   \<and> find_gutter_position cv_ink (Gray boxed_page) \<le> \<lfloor>0.97 * real (image_w (Gray boxed_page))\<rfloor>"
  using coordinate_invariance [of cv_ink "Gray boxed_page"
      "\<lparr>box_x = 1, box_y = 1, box_width = 2, box_height = 2\<rparr>"]
  by (simp add: boxed_bounds boxed_gutter boxed_shape)

end
